theory Spec2Isabelle
  imports Main "HOL-Library.List_Lexorder" "HOL-Library.AList"
begin

section \<open>Strings\<close>

text \<open>
  A Python \<open>str\<close> is a sequence of Unicode code points, so it is modelled as a list of
  natural numbers. Comparison of two strings (used by \<open>sorted\<close>) is the lexicographic order
  on code points, a proper prefix being smaller: the order of \<open>HOL-Library.List_Lexorder\<close>.
\<close>

type_synonym pystr = "nat list"

definition ascii :: "string \<Rightarrow> pystr" where
  "ascii s = map of_char s"

text \<open>\<open>s.startswith(p)\<close>\<close>

definition startswith :: "pystr \<Rightarrow> pystr \<Rightarrow> bool" where
  "startswith s p \<longleftrightarrow> take (length p) s = p"

text \<open>
  \<open>str.isspace\<close> for one code point: the white space table of CPython
  (\<open>_PyUnicode_IsWhitespace\<close>).
\<close>

definition is_space :: "nat \<Rightarrow> bool" where
  "is_space c \<longleftrightarrow>
     (9 \<le> c \<and> c \<le> 13) \<or> (28 \<le> c \<and> c \<le> 32) \<or> c = 133 \<or> c = 160 \<or> c = 5760 \<or>
     (8192 \<le> c \<and> c \<le> 8202) \<or> c = 8232 \<or> c = 8233 \<or> c = 8239 \<or> c = 8287 \<or> c = 12288"

text \<open>\<open>s.strip()\<close>: white space removed at both ends.\<close>

definition strip :: "pystr \<Rightarrow> pystr" where
  "strip s = rev (dropWhile is_space (rev (dropWhile is_space s)))"

text \<open>
  \<open>s.split(sep)\<close> for a separator of one code point: the pieces between the separators,
  always at least one piece (\<open>"".split("|") == [""]\<close>).
\<close>

fun split :: "pystr \<Rightarrow> nat \<Rightarrow> pystr list" where
  "split [] sep = [[]]"
| "split (c # cs) sep =
     (if c = sep then [] # split cs sep
      else (case split cs sep of [] \<Rightarrow> [[c]] | p # ps \<Rightarrow> (c # p) # ps))"

text \<open>\<open>str(n)\<close> for a non-negative integer: its decimal digits.\<close>

fun str :: "nat \<Rightarrow> pystr" where
  "str n = (if n < 10 then [48 + n] else str (n div 10) @ [48 + n mod 10])"

declare str.simps [simp del]

text \<open>\<open>os.path.basename\<close> and \<open>os.path.dirname\<close> of \<open>posixpath\<close>.\<close>

definition slash :: nat where
  "slash = 47"

definition basename :: "pystr \<Rightarrow> pystr" where
  "basename p = rev (takeWhile (\<lambda>c. c \<noteq> slash) (rev p))"

definition dirname :: "pystr \<Rightarrow> pystr" where
  "dirname p =
     (let head = rev (dropWhile (\<lambda>c. c \<noteq> slash) (rev p))
      in if head \<noteq> [] \<and> \<not> list_all (\<lambda>c. c = slash) head
         then rev (dropWhile (\<lambda>c. c = slash) (rev head))
         else head)"

section \<open>Data model\<close>

text \<open>
  An item is the dictionary \<open>{"id": ..., "name": ...}\<close>. Two items are equal in Python
  exactly when both fields are, which is equality of the record.
\<close>

record item =
  item_id :: pystr
  item_name :: pystr

text \<open>
  The content of a structure file, as \<open>json.load\<close> returns it: a dictionary from keys to
  lists of items, in the order of the file. \<open>{}\<close> is the empty list.
\<close>

type_synonym document = "(pystr \<times> item list) list"

datatype py_error =
    FileNotFoundError
  | JSONDecodeError
  | UnicodeDecodeError
  | KeyError
  | TypeError
  | ValueError

text \<open>
  \<open>JSONDecodeError\<close> and \<open>UnicodeDecodeError\<close> are subclasses of \<open>ValueError\<close>;
  this is what \<open>except ValueError\<close> catches.
\<close>

fun is_ValueError :: "py_error \<Rightarrow> bool" where
  "is_ValueError JSONDecodeError = True"
| "is_ValueError UnicodeDecodeError = True"
| "is_ValueError ValueError = True"
| "is_ValueError _ = False"

text \<open>
  What a file holds, seen through \<open>open(path, "r", encoding="utf-8")\<close> and \<open>json.load\<close>:
  bytes that are not UTF-8 (reading raises \<open>UnicodeDecodeError\<close>), text that is not JSON
  (\<open>json.load\<close> raises \<open>JSONDecodeError\<close>), or the text of a document. \<open>json.dump\<close>
  writes the text of a document, and \<open>json.load\<close> of that text gives the document back.
  JSON texts of another shape than a document are outside the model.
\<close>

datatype file_content = Undecodable | Unparsable | Document document

text \<open>
  The files of the data tree, by path, and the entries of the directory \<open>backups\<close>, by
  file name. The directory is an association list with distinct names; its order stands
  for the arbitrary order of \<open>os.listdir\<close>. A missing directory \<open>backups\<close> is created on
  the first backup and is modelled as the empty one.
\<close>

record filesystem =
  files :: "pystr \<rightharpoonup> file_content"
  backups :: "(pystr \<times> file_content) list"

section \<open>Content store\<close>

text \<open>
  \<open>create_backup\<close> (source lines 40 to 55). \<open>now\<close> is the clock reading formatted by
  \<open>strftime("%Y%m%d_%H%M%S")\<close>. \<open>shutil.copy2\<close> overwrites an entry of the same name;
  when the source file is missing it raises, which the function catches and logs.
\<close>

definition create_backup :: "filesystem \<Rightarrow> pystr \<Rightarrow> pystr \<Rightarrow> filesystem" where
  "create_backup fs now file_path =
     (case files fs file_path of
        None \<Rightarrow> fs
      | Some content \<Rightarrow>
          (let backup_name = basename file_path @ ascii ''_'' @ now;
               copied = AList.update backup_name content (backups fs);
               listing = sort (filter (\<lambda>f. startswith f (basename file_path)) (map fst copied))
           in if length listing > 10
              then fs\<lparr>backups := AList.delete (listing ! 0) copied\<rparr>
              else fs\<lparr>backups := copied\<rparr>))"

text \<open>
  \<open>load_data\<close> (source lines 57 to 64). Opening a missing file raises
  \<open>FileNotFoundError\<close>; the two exceptions of the \<open>except\<close> clause give the default, any
  other exception reaches the caller.
\<close>

definition read_json :: "filesystem \<Rightarrow> pystr \<Rightarrow> py_error + document" where
  "read_json fs file_path =
     (case files fs file_path of
        None \<Rightarrow> Inl FileNotFoundError
      | Some Undecodable \<Rightarrow> Inl UnicodeDecodeError
      | Some Unparsable \<Rightarrow> Inl JSONDecodeError
      | Some (Document d) \<Rightarrow> Inr d)"

definition load_data :: "filesystem \<Rightarrow> pystr \<Rightarrow> document option \<Rightarrow> py_error + document" where
  "load_data fs file_path default' =
     (case read_json fs file_path of
        Inr d \<Rightarrow> Inr d
      | Inl e \<Rightarrow>
          if e = FileNotFoundError \<or> e = JSONDecodeError
          then Inr (case default' of None \<Rightarrow> [] | Some d \<Rightarrow> d)
          else Inl e)"

text \<open>
  \<open>save_data\<close> (source lines 66 to 75). \<open>os.makedirs("")\<close> raises when the path has no
  directory part; the exception is caught and logged, and nothing is written.
\<close>

definition save_data :: "filesystem \<Rightarrow> pystr \<Rightarrow> pystr \<Rightarrow> document \<Rightarrow> filesystem" where
  "save_data fs now file_path data =
     (let fs1 = (if files fs file_path \<noteq> None then create_backup fs now file_path else fs)
      in if dirname file_path = [] then fs1
         else fs1\<lparr>files := (files fs1)(file_path \<mapsto> Document data)\<rparr>)"

section \<open>Labels and tables\<close>

text \<open>
  The literal texts of the source that the handlers compare with the input, as code
  points. The first six carry a pictogram and a blank in front of the Cyrillic text; the
  comparisons are on the whole string.
\<close>

definition menu_theory :: pystr where
  "menu_theory = [0x1F4DA, 0x20, 0x422, 0x435, 0x43E, 0x440, 0x438, 0x44F]"

definition menu_questions :: pystr where
  "menu_questions = [0x2753, 0x20, 0x422, 0x435, 0x43E, 0x440, 0x435, 0x442, 0x438, 0x447,
     0x435, 0x441, 0x43A, 0x438, 0x435, 0x20, 0x432, 0x43E, 0x43F, 0x440, 0x43E, 0x441, 0x44B]"

definition menu_tests :: pystr where
  "menu_tests = [0x1F4DD, 0x20, 0x422, 0x435, 0x441, 0x442, 0x44B]"

definition menu_image_tests :: pystr where
  "menu_image_tests = [0x1F5BC, 0xFE0F, 0x20, 0x422, 0x435, 0x441, 0x442, 0x44B, 0x20, 0x43F,
     0x43E, 0x20, 0x438, 0x437, 0x43E, 0x431, 0x440, 0x430, 0x436, 0x435, 0x43D, 0x438, 0x44F,
     0x43C]"

definition menu_tasks :: pystr where
  "menu_tasks = [0x1F9E9, 0x20, 0x421, 0x438, 0x442, 0x443, 0x430, 0x446, 0x438, 0x43E, 0x43D,
     0x43D, 0x44B, 0x435, 0x20, 0x437, 0x430, 0x434, 0x430, 0x447, 0x438]"

text \<open>The button of the admin panel (crown, "Admin-panel").\<close>

definition admin_panel_label :: pystr where
  "admin_panel_label = [0x1F451, 0x20, 0x410, 0x434, 0x43C, 0x438, 0x43D, 0x2D, 0x43F, 0x430,
     0x43D, 0x435, 0x43B, 0x44C]"

text \<open>The button back to the main menu (arrow, "Glavnoe menyu").\<close>

definition main_menu_label :: pystr where
  "main_menu_label = [0x1F519, 0x20, 0x413, 0x43B, 0x430, 0x432, 0x43D, 0x43E, 0x435, 0x20,
     0x43C, 0x435, 0x43D, 0x44E]"

text \<open>"Dobavit element", "Redaktirovat element", "Udalit element": add, edit, delete.\<close>

definition add_label :: pystr where
  "add_label = [0x414, 0x43E, 0x431, 0x430, 0x432, 0x438, 0x442, 0x44C, 0x20, 0x44D, 0x43B,
     0x435, 0x43C, 0x435, 0x43D, 0x442]"

definition edit_label :: pystr where
  "edit_label = [0x420, 0x435, 0x434, 0x430, 0x43A, 0x442, 0x438, 0x440, 0x43E, 0x432, 0x430,
     0x442, 0x44C, 0x20, 0x44D, 0x43B, 0x435, 0x43C, 0x435, 0x43D, 0x442]"

definition delete_label :: pystr where
  "delete_label = [0x423, 0x434, 0x430, 0x43B, 0x438, 0x442, 0x44C, 0x20, 0x44D, 0x43B, 0x435,
     0x43C, 0x435, 0x43D, 0x442]"

text \<open>"Otmena": cancel.\<close>

definition cancel_label :: pystr where
  "cancel_label = [0x41E, 0x442, 0x43C, 0x435, 0x43D, 0x430]"

text \<open>
  The section labels of the admin handlers: "Teoriya", "Teoreticheskie voprosy", "Testy",
  "Testy po izobrazheniyam", "Situatsionnye zadachi".
\<close>

definition theory_label :: pystr where
  "theory_label = [0x422, 0x435, 0x43E, 0x440, 0x438, 0x44F]"

definition questions_label :: pystr where
  "questions_label = [0x422, 0x435, 0x43E, 0x440, 0x435, 0x442, 0x438, 0x447, 0x435, 0x441,
     0x43A, 0x438, 0x435, 0x20, 0x432, 0x43E, 0x43F, 0x440, 0x43E, 0x441, 0x44B]"

definition tests_label :: pystr where
  "tests_label = [0x422, 0x435, 0x441, 0x442, 0x44B]"

definition image_tests_label :: pystr where
  "image_tests_label = [0x422, 0x435, 0x441, 0x442, 0x44B, 0x20, 0x43F, 0x43E, 0x20, 0x438,
     0x437, 0x43E, 0x431, 0x440, 0x430, 0x436, 0x435, 0x43D, 0x438, 0x44F, 0x43C]"

definition tasks_label :: pystr where
  "tasks_label = [0x421, 0x438, 0x442, 0x443, 0x430, 0x446, 0x438, 0x43E, 0x43D, 0x43D, 0x44B,
     0x435, 0x20, 0x437, 0x430, 0x434, 0x430, 0x447, 0x438]"

text \<open>
  The prompts of \<open>handle_menu\<close> ("Vyberite temu", "Vyberite vopros", "Vyberite test",
  "Vyberite test po izobrazheniyam", "Vyberite zadachu").
\<close>

definition prompt_theory :: pystr where
  "prompt_theory = [0x412, 0x44B, 0x431, 0x435, 0x440, 0x438, 0x442, 0x435, 0x20, 0x442, 0x435,
     0x43C, 0x443]"

definition prompt_questions :: pystr where
  "prompt_questions = [0x412, 0x44B, 0x431, 0x435, 0x440, 0x438, 0x442, 0x435, 0x20, 0x432,
     0x43E, 0x43F, 0x440, 0x43E, 0x441]"

definition prompt_tests :: pystr where
  "prompt_tests = [0x412, 0x44B, 0x431, 0x435, 0x440, 0x438, 0x442, 0x435, 0x20, 0x442, 0x435,
     0x441, 0x442]"

definition prompt_image_tests :: pystr where
  "prompt_image_tests = [0x412, 0x44B, 0x431, 0x435, 0x440, 0x438, 0x442, 0x435, 0x20, 0x442,
     0x435, 0x441, 0x442, 0x20, 0x43F, 0x43E, 0x20, 0x438, 0x437, 0x43E, 0x431, 0x440, 0x430,
     0x436, 0x435, 0x43D, 0x438, 0x44F, 0x43C]"

definition prompt_tasks :: pystr where
  "prompt_tasks = [0x412, 0x44B, 0x431, 0x435, 0x440, 0x438, 0x442, 0x435, 0x20, 0x437, 0x430,
     0x434, 0x430, 0x447, 0x443]"

text \<open>
  The dictionary \<open>sections\<close> of \<open>handle_menu\<close> (source lines 128 to 134): label to
  section, key, display key and prompt.
\<close>

definition menu_sections :: "(pystr \<times> pystr \<times> pystr \<times> pystr \<times> pystr) list" where
  "menu_sections =
     [(menu_theory, ascii ''theory'', ascii ''topics'', ascii ''topics'', prompt_theory),
      (menu_questions, ascii ''questions'', ascii ''questions'', ascii ''questions'',
         prompt_questions),
      (menu_tests, ascii ''tests'', ascii ''tests'', ascii ''tests'', prompt_tests),
      (menu_image_tests, ascii ''image_tests'', ascii ''image_tests'', ascii ''image_tests'',
         prompt_image_tests),
      (menu_tasks, ascii ''tasks'', ascii ''tasks'', ascii ''tasks'', prompt_tasks)]"

text \<open>
  The dictionary \<open>sections\<close> of the two admin handlers (source lines 193 to 199 and 266
  to 272): label to section and key.
\<close>

definition sections :: "(pystr \<times> pystr \<times> pystr) list" where
  "sections =
     [(theory_label, ascii ''theory'', ascii ''topics''),
      (questions_label, ascii ''questions'', ascii ''questions''),
      (tests_label, ascii ''tests'', ascii ''tests''),
      (image_tests_label, ascii ''image_tests'', ascii ''image_tests''),
      (tasks_label, ascii ''tasks'', ascii ''tasks'')]"

text \<open>The path \<open>f"data/{section}/structure.json"\<close>.\<close>

definition structure_path :: "pystr \<Rightarrow> pystr" where
  "structure_path section = ascii ''data/'' @ section @ ascii ''/structure.json''"

section \<open>Sessions and replies\<close>

text \<open>
  \<open>context.user_data\<close> of one user. \<open>None\<close> in a field stands for a key that is
  absent or holds Python's \<open>None\<close>: \<open>get\<close> gives \<open>None\<close> (or \<open>"main_menu"\<close> for
  \<open>state\<close>) in both cases, and a subscript raises in both (\<open>KeyError\<close> when the key is
  absent; where the value \<open>None\<close> is used, \<open>KeyError\<close> from \<open>sections[None]\<close> or
  \<open>TypeError\<close> from the assignment to a field of \<open>None\<close>: the model reports
  \<open>KeyError\<close> for all of them, none being a \<open>ValueError\<close>).
\<close>

record session =
  state :: "pystr option"
  admin_state :: "pystr option"
  admin_section :: "pystr option"
  admin_selected_item :: "item option"

text \<open>
  A reply is a message and a keyboard. The message names the text template of the source
  and carries the values put into it; the keyboard is the list of its button labels (every
  row of the source holds one button).
\<close>

datatype message =
    Welcome
  | NothingYet pystr
  | ChooseItem pystr "item list"
  | InAdminPanel
  | ChooseSection
  | UnknownCommandMenu
  | AccessDenied
  | ChooseSectionToAdd
  | ChooseSectionToEdit
  | ChooseSectionToDelete
  | UnknownCommandAdmin
  | EnterNewItemData pystr
  | InvalidSection
  | ItemAdded pystr pystr
  | NoItemsToEdit pystr
  | ChooseItemToEdit pystr "item list"
  | EnterNewName pystr
  | ItemNotFound
  | ItemRenamed pystr
  | NoItemsToDelete pystr
  | ChooseItemToDelete pystr "item list"
  | ItemDeleted pystr
  | Cancelled
  | ErrorTryAgain py_error
  | ErrorOccurred py_error

type_synonym keyboard = "pystr list"

datatype reply = Reply message keyboard

text \<open>\<open>get_main_menu\<close> (source lines 78 to 89) and \<open>get_admin_panel_menu\<close> (92 to 100).\<close>

definition get_main_menu :: "int list \<Rightarrow> int \<Rightarrow> keyboard" where
  "get_main_menu ADMINS user_id =
     [menu_theory, menu_questions, menu_tests, menu_image_tests, menu_tasks]
     @ (if user_id \<in> set ADMINS then [admin_panel_label] else [])"

definition get_admin_panel_menu :: keyboard where
  "get_admin_panel_menu = [add_label, edit_label, delete_label, main_menu_label]"

text \<open>Subscript of a dictionary, and of \<open>user_data\<close>: \<open>KeyError\<close> when there is no value.\<close>

definition getitem :: "('k \<times> 'v) list \<Rightarrow> 'k \<Rightarrow> py_error + 'v" where
  "getitem d k = (case map_of d k of None \<Rightarrow> Inl KeyError | Some v \<Rightarrow> Inr v)"

definition user_data_item :: "'a option \<Rightarrow> py_error + 'a" where
  "user_data_item v = (case v of None \<Rightarrow> Inl KeyError | Some x \<Rightarrow> Inr x)"

text \<open>\<open>load_data(f"data/{section}/structure.json", {key: []})[key]\<close>\<close>

definition load_items :: "filesystem \<Rightarrow> pystr \<Rightarrow> pystr \<Rightarrow> py_error + item list" where
  "load_items fs section key =
     (case load_data fs (structure_path section) (Some [(key, [])]) of
        Inl e \<Rightarrow> Inl e
      | Inr data \<Rightarrow> getitem data key)"

section \<open>Handlers\<close>

text \<open>
  Every handler is one invocation for one message: it takes the session and the file
  system and returns them updated, with the replies it sent. \<open>ADMINS\<close> is the
  allow-list read from the configuration. Logging is not modelled, and neither is the
  choice the framework makes among the three message handlers, which the source registers
  for the same filter (lines 461 to 463): each handler is described on its own, for any
  session it may be called with.
\<close>

text \<open>\<open>start\<close> (source lines 103 to 112).\<close>

definition start :: "int list \<Rightarrow> int \<Rightarrow> session \<times> reply list" where
  "start ADMINS user_id =
     (\<lparr>state = Some (ascii ''main_menu''), admin_state = None, admin_section = None,
       admin_selected_item = None\<rparr>,
      [Reply Welcome (get_main_menu ADMINS user_id)])"

text \<open>
  \<open>handle_menu\<close> (source lines 115 to 166). It has no \<open>try\<close>: an exception of
  \<open>load_data(...)[key]\<close> leaves the handler, before anything is assigned or sent.
\<close>

definition handle_menu ::
  "int list \<Rightarrow> int \<Rightarrow> filesystem \<Rightarrow> session \<Rightarrow> pystr \<Rightarrow> py_error + session \<times> reply list" where
  "handle_menu ADMINS user_id fs s user_message =
     (let current_state = (case state s of None \<Rightarrow> ascii ''main_menu'' | Some st \<Rightarrow> st)
      in if current_state = ascii ''admin_panel'' then Inr (s, [])
         else
           let main_menu = get_main_menu ADMINS user_id
           in case map_of menu_sections user_message of
                Some (section, key, display_key, prompt) \<Rightarrow>
                  (case load_items fs section key of
                     Inl e \<Rightarrow> Inl e
                   | Inr data \<Rightarrow>
                       if data = [] then Inr (s, [Reply (NothingYet prompt) main_menu])
                       else Inr (s\<lparr>state := Some section\<rparr>,
                                 [Reply (ChooseItem prompt data)
                                    (map item_name data @ [main_menu_label])]))
              | None \<Rightarrow>
                  if user_message = admin_panel_label \<and> user_id \<in> set ADMINS
                  then Inr (s\<lparr>state := Some (ascii ''admin_panel''), admin_state := None\<rparr>,
                            [Reply InAdminPanel get_admin_panel_menu])
                  else if user_message = main_menu_label
                  then Inr (s\<lparr>state := Some (ascii ''main_menu''), admin_state := None\<rparr>,
                            [Reply ChooseSection main_menu])
                  else Inr (s, [Reply UnknownCommandMenu main_menu]))"

text \<open>
  \<open>not admin_state\<close>: the value is \<open>None\<close> or the empty string.
\<close>

definition falsy :: "pystr option \<Rightarrow> bool" where
  "falsy v \<longleftrightarrow> v = None \<or> v = Some []"

text \<open>\<open>handle_admin_panel\<close> (source lines 169 to 239).\<close>

definition handle_admin_panel ::
  "int list \<Rightarrow> int \<Rightarrow> session \<Rightarrow> pystr \<Rightarrow> session \<times> reply list" where
  "handle_admin_panel ADMINS user_id s user_message =
     (let current_state = (case state s of None \<Rightarrow> ascii ''main_menu'' | Some st \<Rightarrow> st)
      in if current_state \<noteq> ascii ''admin_panel'' \<or> \<not> falsy (admin_state s) then (s, [])
         else if user_id \<notin> set ADMINS
         then (s\<lparr>state := Some (ascii ''main_menu''), admin_state := None\<rparr>,
               [Reply AccessDenied (get_main_menu ADMINS user_id)])
         else
           let section_keyboard = map fst sections @ [cancel_label]
           in if user_message = add_label
              then (s\<lparr>admin_state := Some (ascii ''waiting_add_section'')\<rparr>,
                    [Reply ChooseSectionToAdd section_keyboard])
              else if user_message = edit_label
              then (s\<lparr>admin_state := Some (ascii ''waiting_edit_section'')\<rparr>,
                    [Reply ChooseSectionToEdit section_keyboard])
              else if user_message = delete_label
              then (s\<lparr>admin_state := Some (ascii ''waiting_delete_section'')\<rparr>,
                    [Reply ChooseSectionToDelete section_keyboard])
              else if user_message = main_menu_label
              then (s\<lparr>state := Some (ascii ''main_menu''), admin_state := None\<rparr>,
                    [Reply ChooseSection (get_main_menu ADMINS user_id)])
              else (s, [Reply UnknownCommandAdmin get_admin_panel_menu]))"

text \<open>
  The \<open>try\<close> block of \<open>handle_admin_input\<close> (source lines 275 to 431), one definition
  for each branch of its \<open>if\<close> chain. A branch returns the session, the file system and
  the replies, or the exception it raised together with the session as it stood at the
  \<open>raise\<close> (no branch writes a file or sends a reply before its last raising statement).
\<close>

type_synonym outcome = "py_error \<times> session + session \<times> filesystem \<times> reply list"

definition attempt :: "session \<Rightarrow> py_error + 'a \<Rightarrow> ('a \<Rightarrow> outcome) \<Rightarrow> outcome" where
  "attempt s m f = (case m of Inl e \<Rightarrow> Inl (e, s) | Inr x \<Rightarrow> f x)"

text \<open>
  \<open>section_name = context.user_data["admin_section"]\<close> followed by
  \<open>section, key = sections[section_name]\<close>.
\<close>

definition current_section :: "session \<Rightarrow> py_error + pystr \<times> pystr \<times> pystr" where
  "current_section s =
     (case user_data_item (admin_section s) of
        Inl e \<Rightarrow> Inl e
      | Inr section_name \<Rightarrow>
          (case getitem sections section_name of
             Inl e \<Rightarrow> Inl e
           | Inr (section, key) \<Rightarrow> Inr (section_name, section, key)))"

text \<open>\<open>next((item for item in data if item["name"] == user_message), None)\<close>\<close>

definition first_named :: "item list \<Rightarrow> pystr \<Rightarrow> item option" where
  "first_named data user_message = find (\<lambda>item. item_name item = user_message) data"

text \<open>Source lines 275 to 292.\<close>

definition waiting_add_section :: "filesystem \<Rightarrow> session \<Rightarrow> pystr \<Rightarrow> outcome" where
  "waiting_add_section fs s user_message =
     (if map_of sections user_message \<noteq> None
      then Inr (s\<lparr>admin_section := Some user_message,
                  admin_state := Some (ascii ''waiting_add_item'')\<rparr>,
                fs, [Reply (EnterNewItemData user_message) [cancel_label]])
      else Inr (s\<lparr>admin_state := None\<rparr>, fs, [Reply InvalidSection get_admin_panel_menu]))"

text \<open>
  Source lines 293 to 312. The unpacking \<open>section_part, item_name = user_message.split("|")\<close>
  raises \<open>ValueError\<close> unless the split has exactly two pieces.
\<close>

definition bar :: nat where
  "bar = 124"

definition waiting_add_item :: "pystr \<Rightarrow> filesystem \<Rightarrow> session \<Rightarrow> pystr \<Rightarrow> outcome" where
  "waiting_add_item now fs s user_message =
     attempt s (current_section s) (\<lambda>(section_name, section, key).
     attempt s (if section_name = theory_label
                then (case split user_message bar of
                        [section_part, name_part] \<Rightarrow> Inr (strip name_part)
                      | _ \<Rightarrow> Inl ValueError)
                else Inr (strip user_message)) (\<lambda>item_name'.
     let path = structure_path section in
     attempt s (load_data fs path (Some [(key, [])])) (\<lambda>data.
     attempt s (getitem data key) (\<lambda>items.
     let new_id = str (length items + 1);
         data' = AList.update key (items @ [\<lparr>item_id = new_id, item_name = item_name'\<rparr>]) data;
         fs' = save_data fs now path data'
     in Inr (s\<lparr>admin_state := None, admin_section := None\<rparr>, fs',
             [Reply (ItemAdded item_name' section_name) get_admin_panel_menu])))))"

text \<open>
  Source lines 313 to 339. The section and the next sub-state are stored before the
  collection is loaded.
\<close>

definition waiting_edit_section :: "filesystem \<Rightarrow> session \<Rightarrow> pystr \<Rightarrow> outcome" where
  "waiting_edit_section fs s user_message =
     (case map_of sections user_message of
        Some (section, key) \<Rightarrow>
          (let s1 = s\<lparr>admin_section := Some user_message,
                      admin_state := Some (ascii ''waiting_edit_item_list'')\<rparr>
           in attempt s1 (load_items fs section key) (\<lambda>data.
                if data = []
                then Inr (s1\<lparr>admin_state := None\<rparr>, fs,
                          [Reply (NoItemsToEdit user_message) get_admin_panel_menu])
                else Inr (s1, fs,
                          [Reply (ChooseItemToEdit user_message data)
                             (map item_name data @ [cancel_label])])))
      | None \<Rightarrow>
          Inr (s\<lparr>admin_state := None\<rparr>, fs, [Reply InvalidSection get_admin_panel_menu]))"

text \<open>Source lines 340 to 359.\<close>

definition waiting_edit_item_list :: "filesystem \<Rightarrow> session \<Rightarrow> pystr \<Rightarrow> outcome" where
  "waiting_edit_item_list fs s user_message =
     attempt s (current_section s) (\<lambda>(section_name, section, key).
     attempt s (load_items fs section key) (\<lambda>data.
     case first_named data user_message of
       Some selected_item \<Rightarrow>
         Inr (s\<lparr>admin_selected_item := Some selected_item,
                admin_state := Some (ascii ''waiting_edit_item'')\<rparr>,
              fs, [Reply (EnterNewName (item_name selected_item)) [cancel_label]])
     | None \<Rightarrow>
         Inr (s\<lparr>admin_state := None\<rparr>, fs, [Reply ItemNotFound get_admin_panel_menu])))"

text \<open>
  Source lines 360 to 375. \<open>data\<close> is built by \<open>json.load\<close> in this invocation, while
  \<open>selected_item\<close> is the object that an earlier invocation stored in the session (line
  346), built by the \<open>json.load\<close> of that invocation. The two share no object, so the
  assignment \<open>selected_item["name"] = new_name\<close> changes the item of the session
  (\<open>s1\<close> below) and leaves \<open>data\<close>, which is what \<open>save_data\<close> writes, as loaded.
\<close>

definition waiting_edit_item :: "pystr \<Rightarrow> filesystem \<Rightarrow> session \<Rightarrow> pystr \<Rightarrow> outcome" where
  "waiting_edit_item now fs s user_message =
     (let new_name = strip user_message in
      attempt s (current_section s) (\<lambda>(section_name, section, key).
      attempt s (load_data fs (structure_path section) (Some [(key, [])])) (\<lambda>data.
      attempt s (user_data_item (admin_selected_item s)) (\<lambda>selected_item.
      let s1 = s\<lparr>admin_selected_item := Some (selected_item\<lparr>item_name := new_name\<rparr>)\<rparr>;
          fs' = save_data fs now (structure_path section) data
      in Inr (s1\<lparr>admin_state := None, admin_section := None, admin_selected_item := None\<rparr>,
              fs', [Reply (ItemRenamed new_name) get_admin_panel_menu])))))"

text \<open>Source lines 376 to 402.\<close>

definition waiting_delete_section :: "filesystem \<Rightarrow> session \<Rightarrow> pystr \<Rightarrow> outcome" where
  "waiting_delete_section fs s user_message =
     (case map_of sections user_message of
        Some (section, key) \<Rightarrow>
          (let s1 = s\<lparr>admin_section := Some user_message,
                      admin_state := Some (ascii ''waiting_delete_item_list'')\<rparr>
           in attempt s1 (load_items fs section key) (\<lambda>data.
                if data = []
                then Inr (s1\<lparr>admin_state := None\<rparr>, fs,
                          [Reply (NoItemsToDelete user_message) get_admin_panel_menu])
                else Inr (s1, fs,
                          [Reply (ChooseItemToDelete user_message data)
                             (map item_name data @ [cancel_label])])))
      | None \<Rightarrow>
          Inr (s\<lparr>admin_state := None\<rparr>, fs, [Reply InvalidSection get_admin_panel_menu]))"

text \<open>
  Source lines 403 to 423. The comprehension keeps the items that differ from the selected
  one.
\<close>

definition waiting_delete_item_list ::
  "pystr \<Rightarrow> filesystem \<Rightarrow> session \<Rightarrow> pystr \<Rightarrow> outcome" where
  "waiting_delete_item_list now fs s user_message =
     attempt s (current_section s) (\<lambda>(section_name, section, key).
     attempt s (load_data fs (structure_path section) (Some [(key, [])])) (\<lambda>data.
     attempt s (getitem data key) (\<lambda>items.
     case first_named items user_message of
       Some selected_item \<Rightarrow>
         (let data' = AList.update key (filter (\<lambda>item. item \<noteq> selected_item) items) data;
              fs' = save_data fs now (structure_path section) data'
          in Inr (s\<lparr>admin_state := None, admin_section := None\<rparr>, fs',
                  [Reply (ItemDeleted (item_name selected_item)) get_admin_panel_menu]))
     | None \<Rightarrow>
         Inr (s\<lparr>admin_state := None, admin_section := None\<rparr>, fs,
              [Reply ItemNotFound get_admin_panel_menu]))))"

text \<open>
  The \<open>if\<close> chain itself, in the order of the source: the comparison of the message with
  the cancel label (line 424) is its last branch, tried when the sub-state is none of the
  seven above.
\<close>

definition admin_input_try :: "pystr \<Rightarrow> filesystem \<Rightarrow> session \<Rightarrow> pystr \<Rightarrow> outcome" where
  "admin_input_try now fs s user_message =
     (if admin_state s = Some (ascii ''waiting_add_section'')
      then waiting_add_section fs s user_message
      else if admin_state s = Some (ascii ''waiting_add_item'')
      then waiting_add_item now fs s user_message
      else if admin_state s = Some (ascii ''waiting_edit_section'')
      then waiting_edit_section fs s user_message
      else if admin_state s = Some (ascii ''waiting_edit_item_list'')
      then waiting_edit_item_list fs s user_message
      else if admin_state s = Some (ascii ''waiting_edit_item'')
      then waiting_edit_item now fs s user_message
      else if admin_state s = Some (ascii ''waiting_delete_section'')
      then waiting_delete_section fs s user_message
      else if admin_state s = Some (ascii ''waiting_delete_item_list'')
      then waiting_delete_item_list now fs s user_message
      else if user_message = cancel_label
      then Inr (s\<lparr>admin_state := None, admin_section := None, admin_selected_item := None\<rparr>,
                fs, [Reply Cancelled get_admin_panel_menu])
      else Inr (s, fs, []))"

text \<open>
  \<open>handle_admin_input\<close> (source lines 242 to 447): the guards, the \<open>try\<close> block and
  its two \<open>except\<close> clauses.
\<close>

definition handle_admin_input ::
  "int list \<Rightarrow> int \<Rightarrow> pystr \<Rightarrow> filesystem \<Rightarrow> session \<Rightarrow> pystr
     \<Rightarrow> session \<times> filesystem \<times> reply list" where
  "handle_admin_input ADMINS user_id now fs s user_message =
     (let current_state = (case state s of None \<Rightarrow> ascii ''main_menu'' | Some st \<Rightarrow> st)
      in if current_state \<noteq> ascii ''admin_panel'' \<or> falsy (admin_state s) then (s, fs, [])
         else if user_id \<notin> set ADMINS
         then (s\<lparr>state := Some (ascii ''main_menu''), admin_state := None\<rparr>, fs,
               [Reply AccessDenied (get_main_menu ADMINS user_id)])
         else
           (case admin_input_try now fs s user_message of
              Inr result \<Rightarrow> result
            | Inl (e, s') \<Rightarrow>
                if is_ValueError e
                then (s', fs, [Reply (ErrorTryAgain e) [cancel_label]])
                else (s'\<lparr>admin_state := None, admin_section := None,
                         admin_selected_item := None\<rparr>,
                      fs, [Reply (ErrorOccurred e) get_admin_panel_menu])))"

section \<open>Runs\<close>

text \<open>
  Saving to one file several times in a row: each element is the clock reading at the
  save and the document saved.
\<close>

fun save_all :: "filesystem \<Rightarrow> pystr \<Rightarrow> (pystr \<times> document) list \<Rightarrow> filesystem" where
  "save_all fs file_path [] = fs"
| "save_all fs file_path ((now, data) # rest) =
     save_all (save_data fs now file_path data) file_path rest"

text \<open>
  One user sending several messages in a row to \<open>handle_menu\<close>; an exception ends the
  run.
\<close>

fun menu_run ::
  "int list \<Rightarrow> int \<Rightarrow> filesystem \<Rightarrow> session \<Rightarrow> pystr list \<Rightarrow> py_error + session" where
  "menu_run ADMINS user_id fs s [] = Inr s"
| "menu_run ADMINS user_id fs s (user_message # rest) =
     (case handle_menu ADMINS user_id fs s user_message of
        Inl e \<Rightarrow> Inl e
      | Inr (s', replies) \<Rightarrow> menu_run ADMINS user_id fs s' rest)"

section \<open>Unfolding rules\<close>

lemmas label_defs = menu_theory_def menu_questions_def menu_tests_def menu_image_tests_def
  menu_tasks_def admin_panel_label_def main_menu_label_def add_label_def edit_label_def
  delete_label_def cancel_label_def theory_label_def questions_label_def tests_label_def
  image_tests_label_def tasks_label_def

lemmas store_defs = load_data_def read_json_def save_data_def create_backup_def
  structure_path_def basename_def dirname_def slash_def startswith_def ascii_def

lemmas branch_defs = admin_input_try_def waiting_add_section_def waiting_add_item_def
  waiting_edit_section_def waiting_edit_item_list_def waiting_edit_item_def
  waiting_delete_section_def waiting_delete_item_list_def attempt_def current_section_def
  user_data_item_def getitem_def load_items_def first_named_def falsy_def sections_def
  get_admin_panel_menu_def bar_def is_space_def strip_def

section \<open>The content store\<close>




section \<open>Paths of the structure files\<close>

lemma basename_structure_path: "basename (structure_path section) = ascii ''structure.json''"
  by (simp add: basename_def structure_path_def ascii_def slash_def)


lemma files_create_backup: "files (create_backup fs now file_path) = files fs"
  by (simp add: create_backup_def Let_def split: option.splits)


section \<open>The cancel label\<close>

text \<open>
  C1 (fails on the code): in the sub-state \<open>waiting_add_item\<close> of the section "Testy" the
  message "Otmena" is not treated as a cancellation. The branch of the sub-state comes
  first in the \<open>if\<close> chain and takes the message as the name of a new item: the item is
  appended to the collection and the file is rewritten, after a backup of the old one.
\<close>

theorem cancel_in_waiting_add_item_is_saved_as_item:
  "handle_admin_input [42] 42 (ascii ''20240101_120000'')
     \<lparr>files = [structure_path (ascii ''tests'') \<mapsto>
         Document [(ascii ''tests'', [\<lparr>item_id = ascii ''1'', item_name = ascii ''A''\<rparr>])]],
       backups = []\<rparr>
     \<lparr>state = Some (ascii ''admin_panel''), admin_state = Some (ascii ''waiting_add_item''),
       admin_section = Some tests_label, admin_selected_item = None\<rparr>
     cancel_label
   = (\<lparr>state = Some (ascii ''admin_panel''), admin_state = None, admin_section = None,
        admin_selected_item = None\<rparr>,
      \<lparr>files = [structure_path (ascii ''tests'') \<mapsto>
          Document [(ascii ''tests'', [\<lparr>item_id = ascii ''1'', item_name = ascii ''A''\<rparr>,
                                     \<lparr>item_id = ascii ''2'', item_name = cancel_label\<rparr>])]],
        backups = [(ascii ''structure.json_20240101_120000'',
          Document [(ascii ''tests'', [\<lparr>item_id = ascii ''1'', item_name = ascii ''A''\<rparr>])])]\<rparr>,
      [Reply (ItemAdded cancel_label tests_label) get_admin_panel_menu])"
  by (simp add: handle_admin_input_def branch_defs store_defs label_defs str.simps)

text \<open>
  Consequently the file of the section after the message is not the file before it.
\<close>

theorem cancel_in_waiting_add_item_changes_file:
  "files (fst (snd (handle_admin_input [42] 42 (ascii ''20240101_120000'')
     \<lparr>files = [structure_path (ascii ''tests'') \<mapsto>
         Document [(ascii ''tests'', [\<lparr>item_id = ascii ''1'', item_name = ascii ''A''\<rparr>])]],
       backups = []\<rparr>
     \<lparr>state = Some (ascii ''admin_panel''), admin_state = Some (ascii ''waiting_add_item''),
       admin_section = Some tests_label, admin_selected_item = None\<rparr>
     cancel_label))) (structure_path (ascii ''tests''))
   \<noteq> Some (Document [(ascii ''tests'', [\<lparr>item_id = ascii ''1'', item_name = ascii ''A''\<rparr>])])"
  using cancel_in_waiting_add_item_is_saved_as_item by (simp add: cancel_label_def)

section \<open>Renaming an item\<close>

text \<open>
  C2 (fails on the code): in the sub-state \<open>waiting_edit_item\<close>, with the item named "A"
  selected, the new name "B" is confirmed to the user, but the file keeps the item under
  its old name: what is saved is the collection as it was just loaded.
\<close>

theorem rename_is_not_persisted:
  "handle_admin_input [42] 42 (ascii ''20240101_120000'')
     \<lparr>files = [structure_path (ascii ''tests'') \<mapsto>
         Document [(ascii ''tests'', [\<lparr>item_id = ascii ''1'', item_name = ascii ''A''\<rparr>])]],
       backups = []\<rparr>
     \<lparr>state = Some (ascii ''admin_panel''), admin_state = Some (ascii ''waiting_edit_item''),
       admin_section = Some tests_label,
       admin_selected_item = Some \<lparr>item_id = ascii ''1'', item_name = ascii ''A''\<rparr>\<rparr>
     (ascii '' B '')
   = (\<lparr>state = Some (ascii ''admin_panel''), admin_state = None, admin_section = None,
        admin_selected_item = None\<rparr>,
      \<lparr>files = [structure_path (ascii ''tests'') \<mapsto>
          Document [(ascii ''tests'', [\<lparr>item_id = ascii ''1'', item_name = ascii ''A''\<rparr>])]],
        backups = [(ascii ''structure.json_20240101_120000'',
          Document [(ascii ''tests'', [\<lparr>item_id = ascii ''1'', item_name = ascii ''A''\<rparr>])])]\<rparr>,
      [Reply (ItemRenamed (ascii ''B'')) get_admin_panel_menu])"
  by (simp add: handle_admin_input_def branch_defs store_defs label_defs)

text \<open>
  Consequently the file of the section after the message still holds the old name.
\<close>

theorem rename_is_not_persisted_file:
  "files (fst (snd (handle_admin_input [42] 42 (ascii ''20240101_120000'')
     \<lparr>files = [structure_path (ascii ''tests'') \<mapsto>
         Document [(ascii ''tests'', [\<lparr>item_id = ascii ''1'', item_name = ascii ''A''\<rparr>])]],
       backups = []\<rparr>
     \<lparr>state = Some (ascii ''admin_panel''), admin_state = Some (ascii ''waiting_edit_item''),
       admin_section = Some tests_label,
       admin_selected_item = Some \<lparr>item_id = ascii ''1'', item_name = ascii ''A''\<rparr>\<rparr>
     (ascii '' B '')))) (structure_path (ascii ''tests''))
   = Some (Document [(ascii ''tests'', [\<lparr>item_id = ascii ''1'', item_name = ascii ''A''\<rparr>])])"
  using rename_is_not_persisted by simp

section \<open>Deleting an item\<close>






section \<open>Identifiers after a deletion\<close>

text \<open>
  C4, as amended. Starting from the collection of the items (1, "A") and (2, "B"), deleting
  "A" and then adding "C" gives exactly the collection of (2, "B") and (2, "C"): the new
  identifier is the length of the collection plus one, here 2, which is the identifier of
  the item that survived.
\<close>

theorem delete_then_add_repeats_surviving_id:
  "(let fs0 = \<lparr>files = [structure_path (ascii ''tests'') \<mapsto>
           Document [(ascii ''tests'', [\<lparr>item_id = ascii ''1'', item_name = ascii ''A''\<rparr>,
                                      \<lparr>item_id = ascii ''2'', item_name = ascii ''B''\<rparr>])]],
         backups = []\<rparr>;
        (s1, fs1, replies1) = handle_admin_input [42] 42 (ascii ''20240101_120000'') fs0
          \<lparr>state = Some (ascii ''admin_panel''),
            admin_state = Some (ascii ''waiting_delete_item_list''),
            admin_section = Some tests_label, admin_selected_item = None\<rparr> (ascii ''A'');
        (s2, fs2, replies2) = handle_admin_input [42] 42 (ascii ''20240101_120005'') fs1
          \<lparr>state = Some (ascii ''admin_panel''),
            admin_state = Some (ascii ''waiting_add_item''),
            admin_section = Some tests_label, admin_selected_item = None\<rparr> (ascii ''C'')
    in files fs2 (structure_path (ascii ''tests'')))
   = Some (Document [(ascii ''tests'', [\<lparr>item_id = ascii ''2'', item_name = ascii ''B''\<rparr>,
                                       \<lparr>item_id = ascii ''2'', item_name = ascii ''C''\<rparr>])])"
  by (simp add: handle_admin_input_def branch_defs store_defs label_defs str.simps)

text \<open>Consequently the file exists after the two steps.\<close>

theorem delete_then_add_repeats_surviving_id_witness:
  "(let fs0 = \<lparr>files = [structure_path (ascii ''tests'') \<mapsto>
           Document [(ascii ''tests'', [\<lparr>item_id = ascii ''1'', item_name = ascii ''A''\<rparr>,
                                      \<lparr>item_id = ascii ''2'', item_name = ascii ''B''\<rparr>])]],
         backups = []\<rparr>;
        (s1, fs1, replies1) = handle_admin_input [42] 42 (ascii ''20240101_120000'') fs0
          \<lparr>state = Some (ascii ''admin_panel''),
            admin_state = Some (ascii ''waiting_delete_item_list''),
            admin_section = Some tests_label, admin_selected_item = None\<rparr> (ascii ''A'');
        (s2, fs2, replies2) = handle_admin_input [42] 42 (ascii ''20240101_120005'') fs1
          \<lparr>state = Some (ascii ''admin_panel''),
            admin_state = Some (ascii ''waiting_add_item''),
            admin_section = Some tests_label, admin_selected_item = None\<rparr> (ascii ''C'')
    in files fs2 (structure_path (ascii ''tests'')))
   \<noteq> None"
  using delete_then_add_repeats_surviving_id by (simp only: option.distinct not_False_eq_True)

text \<open>
  C4 as stated fails: the collection after the two steps is not the one of (2, "B") and
  (1, "C").
\<close>

theorem delete_then_add_is_not_id_one:
  "(let fs0 = \<lparr>files = [structure_path (ascii ''tests'') \<mapsto>
           Document [(ascii ''tests'', [\<lparr>item_id = ascii ''1'', item_name = ascii ''A''\<rparr>,
                                      \<lparr>item_id = ascii ''2'', item_name = ascii ''B''\<rparr>])]],
         backups = []\<rparr>;
        (s1, fs1, replies1) = handle_admin_input [42] 42 (ascii ''20240101_120000'') fs0
          \<lparr>state = Some (ascii ''admin_panel''),
            admin_state = Some (ascii ''waiting_delete_item_list''),
            admin_section = Some tests_label, admin_selected_item = None\<rparr> (ascii ''A'');
        (s2, fs2, replies2) = handle_admin_input [42] 42 (ascii ''20240101_120005'') fs1
          \<lparr>state = Some (ascii ''admin_panel''),
            admin_state = Some (ascii ''waiting_add_item''),
            admin_section = Some tests_label, admin_selected_item = None\<rparr> (ascii ''C'')
    in files fs2 (structure_path (ascii ''tests'')))
   \<noteq> Some (Document [(ascii ''tests'', [\<lparr>item_id = ascii ''2'', item_name = ascii ''B''\<rparr>,
                                       \<lparr>item_id = ascii ''1'', item_name = ascii ''C''\<rparr>])])"
  by (simp add: handle_admin_input_def branch_defs store_defs label_defs str.simps)

section \<open>Access to the admin panel\<close>

text \<open>
  C6. A user who is not in the allow-list and whose top-level state is \<open>main_menu\<close> (the
  key \<open>state\<close> absent, or holding \<open>"main_menu"\<close>) sends the label of the admin panel:
  \<open>handle_menu\<close> answers with the unknown-command message and returns the session
  unchanged; so the session is still the same after any number of such messages; and the two
  admin handlers, should they see the message, return without doing anything.
\<close>

theorem non_admin_stays_in_main_menu:
  assumes "user_id \<notin> set ADMINS"
    and "state s = None \<or> state s = Some (ascii ''main_menu'')"
  shows "handle_menu ADMINS user_id fs s admin_panel_label =
           Inr (s, [Reply UnknownCommandMenu (get_main_menu ADMINS user_id)])
       \<and> menu_run ADMINS user_id fs s (replicate n admin_panel_label) = Inr s
       \<and> handle_admin_panel ADMINS user_id s admin_panel_label = (s, [])
       \<and> handle_admin_input ADMINS user_id now fs s admin_panel_label = (s, fs, [])"
proof -
  have no_section: "map_of menu_sections admin_panel_label = None"
    by (simp add: menu_sections_def label_defs)
  have not_back: "admin_panel_label \<noteq> main_menu_label"
    by (simp add: label_defs)
  have step: "handle_menu ADMINS user_id fs s admin_panel_label =
           Inr (s, [Reply UnknownCommandMenu (get_main_menu ADMINS user_id)])"
    using assms no_section not_back by (auto simp: handle_menu_def ascii_def Let_def)
  have run: "menu_run ADMINS user_id fs s (replicate n admin_panel_label) = Inr s"
    by (induction n) (simp_all add: step)
  have panel: "handle_admin_panel ADMINS user_id s admin_panel_label = (s, [])"
    using assms(2) by (auto simp: handle_admin_panel_def ascii_def)
  have input: "handle_admin_input ADMINS user_id now fs s admin_panel_label = (s, fs, [])"
    using assms(2) by (auto simp: handle_admin_input_def ascii_def)
  show ?thesis using step run panel input by simp
qed

theorem non_admin_stays_in_main_menu_witness:
  "handle_menu [42] 7 \<lparr>files = Map.empty, backups = []\<rparr>
     \<lparr>state = Some (ascii ''main_menu''), admin_state = None, admin_section = None,
       admin_selected_item = None\<rparr> admin_panel_label
   = Inr (\<lparr>state = Some (ascii ''main_menu''), admin_state = None, admin_section = None,
            admin_selected_item = None\<rparr>,
          [Reply UnknownCommandMenu
             [menu_theory, menu_questions, menu_tests, menu_image_tests, menu_tasks]])
   \<and> menu_run [42] 7 \<lparr>files = Map.empty, backups = []\<rparr>
     \<lparr>state = Some (ascii ''main_menu''), admin_state = None, admin_section = None,
       admin_selected_item = None\<rparr> (replicate 3 admin_panel_label)
   = Inr \<lparr>state = Some (ascii ''main_menu''), admin_state = None, admin_section = None,
           admin_selected_item = None\<rparr>"
  using non_admin_stays_in_main_menu
    [where ADMINS = "[42]" and user_id = 7 and n = 3
       and fs = "\<lparr>files = Map.empty, backups = []\<rparr>"
       and s = "\<lparr>state = Some (ascii ''main_menu''), admin_state = None,
                  admin_section = None, admin_selected_item = None\<rparr>"]
  by (simp add: get_main_menu_def)

section \<open>Sections without items\<close>

lemma load_items_empty:
  assumes "files fs (structure_path sec) = None
         \<or> files fs (structure_path sec) = Some Unparsable
         \<or> (\<exists>data. files fs (structure_path sec) = Some (Document data)
                \<and> map_of data key = Some [])"
  shows "load_items fs sec key = Inr []"
  using assms by (auto simp: load_items_def load_data_def read_json_def getitem_def)

text \<open>
  C8. The admin chooses a section whose collection is empty: the file is absent, or is
  not JSON, or holds the empty list under the key of the section. In the sub-state
  \<open>waiting_edit_section\<close>, and likewise in \<open>waiting_delete_section\<close>, the invocation of
  the handler ends with the sub-state \<open>None\<close> and the "no items" message, and the files
  untouched. The sub-state \<open>waiting_edit_item_list\<close> (or \<open>waiting_delete_item_list\<close>)
  that the source assigns on the way is overwritten before the handler sends anything or
  returns, so no other invocation sees it; the model, one step for each invocation, has
  only the final value.
\<close>

theorem empty_section_returns_to_none:
  assumes "user_id \<in> set ADMINS"
    and "state s = Some (ascii ''admin_panel'')"
    and "map_of sections user_message = Some (sec, key)"
    and "files fs (structure_path sec) = None
         \<or> files fs (structure_path sec) = Some Unparsable
         \<or> (\<exists>data. files fs (structure_path sec) = Some (Document data)
                \<and> map_of data key = Some [])"
  shows "(admin_state s = Some (ascii ''waiting_edit_section'') \<longrightarrow>
            handle_admin_input ADMINS user_id now fs s user_message =
              (s\<lparr>admin_section := Some user_message, admin_state := None\<rparr>, fs,
               [Reply (NoItemsToEdit user_message) get_admin_panel_menu]))
       \<and> (admin_state s = Some (ascii ''waiting_delete_section'') \<longrightarrow>
            handle_admin_input ADMINS user_id now fs s user_message =
              (s\<lparr>admin_section := Some user_message, admin_state := None\<rparr>, fs,
               [Reply (NoItemsToDelete user_message) get_admin_panel_menu]))"
proof -
  have empty: "load_items fs sec key = Inr []"
    using assms(4) by (rule load_items_empty)
  show ?thesis
    using assms(1-3) empty
    by (simp add: handle_admin_input_def falsy_def admin_input_try_def
        waiting_edit_section_def waiting_delete_section_def attempt_def ascii_def)
qed

theorem empty_section_returns_to_none_witness:
  "handle_admin_input [42] 42 (ascii ''20240101_120000'') \<lparr>files = Map.empty, backups = []\<rparr>
     \<lparr>state = Some (ascii ''admin_panel''), admin_state = Some (ascii ''waiting_edit_section''),
       admin_section = None, admin_selected_item = None\<rparr> tests_label
   = (\<lparr>state = Some (ascii ''admin_panel''), admin_state = None,
        admin_section = Some tests_label, admin_selected_item = None\<rparr>,
      \<lparr>files = Map.empty, backups = []\<rparr>,
      [Reply (NoItemsToEdit tests_label) get_admin_panel_menu])
   \<and> handle_admin_input [42] 42 (ascii ''20240101_120000'')
     \<lparr>files = [structure_path (ascii ''tasks'') \<mapsto> Document [(ascii ''tasks'', [])]],
       backups = []\<rparr>
     \<lparr>state = Some (ascii ''admin_panel''),
       admin_state = Some (ascii ''waiting_delete_section''),
       admin_section = None, admin_selected_item = None\<rparr> tasks_label
   = (\<lparr>state = Some (ascii ''admin_panel''), admin_state = None,
        admin_section = Some tasks_label, admin_selected_item = None\<rparr>,
      \<lparr>files = [structure_path (ascii ''tasks'') \<mapsto> Document [(ascii ''tasks'', [])]],
        backups = []\<rparr>,
      [Reply (NoItemsToDelete tasks_label) get_admin_panel_menu])"
  using empty_section_returns_to_none
    [where ADMINS = "[42]" and user_id = 42 and now = "ascii ''20240101_120000''"
       and user_message = tests_label and sec = "ascii ''tests''" and key = "ascii ''tests''"
       and fs = "\<lparr>files = Map.empty, backups = []\<rparr>"
       and s = "\<lparr>state = Some (ascii ''admin_panel''),
                  admin_state = Some (ascii ''waiting_edit_section''),
                  admin_section = None, admin_selected_item = None\<rparr>"]
    empty_section_returns_to_none
    [where ADMINS = "[42]" and user_id = 42 and now = "ascii ''20240101_120000''"
       and user_message = tasks_label and sec = "ascii ''tasks''" and key = "ascii ''tasks''"
       and fs = "\<lparr>files = [structure_path (ascii ''tasks'') \<mapsto>
                              Document [(ascii ''tasks'', [])]], backups = []\<rparr>"
       and s = "\<lparr>state = Some (ascii ''admin_panel''),
                  admin_state = Some (ascii ''waiting_delete_section''),
                  admin_section = None, admin_selected_item = None\<rparr>"]
  by (simp add: sections_def label_defs ascii_def)

section \<open>The payload of an added topic\<close>

lemma split_no_sep: "sep \<notin> set xs \<Longrightarrow> split xs sep = [xs]"
  by (induction xs) auto

lemma split_one_sep:
  "sep \<notin> set xs \<Longrightarrow> sep \<notin> set ys \<Longrightarrow> split (xs @ sep # ys) sep = [xs, ys]"
  by (induction xs) (auto simp: split_no_sep)

lemma split_nonempty: "split xs sep \<noteq> []"
  by (induction xs) (auto split: list.splits)

lemma length_split: "length (split xs sep) = Suc (count_list xs sep)"
  by (induction xs) (auto split: list.splits simp: split_nonempty)

lemma unpack_two:
  "length ps \<noteq> 2 \<Longrightarrow>
     (case ps of [section_part, name_part] \<Rightarrow> Inr (f name_part) | _ \<Rightarrow> Inl ValueError)
       = Inl ValueError"
  by (auto split: list.splits)

text \<open>
  C10. In the sub-state \<open>waiting_add_item\<close> of the section "Teoriya": a payload \<open>X|Y\<close>
  with no separator in \<open>X\<close> or \<open>Y\<close> adds, whatever \<open>X\<close> is, the item named
  \<open>Y.strip()\<close> with the identifier \<open>str(len + 1)\<close> to the collection that was loaded,
  and saves it; a payload whose number of separators is not one raises \<open>ValueError\<close>,
  which is reported with a new prompt while session and files stay as they were.
\<close>

theorem theory_payload_keeps_second_part:
  assumes "user_id \<in> set ADMINS"
    and "state s = Some (ascii ''admin_panel'')"
    and "admin_state s = Some (ascii ''waiting_add_item'')"
    and "admin_section s = Some theory_label"
  shows "(bar \<notin> set X \<and> bar \<notin> set Y
          \<and> load_data fs (structure_path (ascii ''theory'')) (Some [(ascii ''topics'', [])])
              = Inr data
          \<and> map_of data (ascii ''topics'') = Some items \<longrightarrow>
            handle_admin_input ADMINS user_id now fs s (X @ bar # Y) =
              (s\<lparr>admin_state := None, admin_section := None\<rparr>,
               save_data fs now (structure_path (ascii ''theory''))
                 (AList.update (ascii ''topics'')
                    (items @ [\<lparr>item_id = str (length items + 1), item_name = strip Y\<rparr>]) data),
               [Reply (ItemAdded (strip Y) theory_label) get_admin_panel_menu]))
       \<and> (count_list user_message bar \<noteq> 1 \<longrightarrow>
            handle_admin_input ADMINS user_id now fs s user_message =
              (s, fs, [Reply (ErrorTryAgain ValueError) [cancel_label]]))"
proof -
  have sec: "current_section s = Inr (theory_label, ascii ''theory'', ascii ''topics'')"
    using assms(4)
    by (simp add: current_section_def user_data_item_def getitem_def sections_def)
  have branch: "admin_input_try now fs s m = waiting_add_item now fs s m" for m
    using assms(3) by (simp add: admin_input_try_def ascii_def)
  have guard: "handle_admin_input ADMINS user_id now fs s m =
      (case waiting_add_item now fs s m of
         Inr result \<Rightarrow> result
       | Inl (e, s') \<Rightarrow>
           if is_ValueError e
           then (s', fs, [Reply (ErrorTryAgain e) [cancel_label]])
           else (s'\<lparr>admin_state := None, admin_section := None,
                    admin_selected_item := None\<rparr>,
                 fs, [Reply (ErrorOccurred e) get_admin_panel_menu]))" for m
    using assms(1-3) branch by (simp add: handle_admin_input_def falsy_def ascii_def)
  have good: "handle_admin_input ADMINS user_id now fs s (X @ bar # Y) =
              (s\<lparr>admin_state := None, admin_section := None\<rparr>,
               save_data fs now (structure_path (ascii ''theory''))
                 (AList.update (ascii ''topics'')
                    (items @ [\<lparr>item_id = str (length items + 1), item_name = strip Y\<rparr>]) data),
               [Reply (ItemAdded (strip Y) theory_label) get_admin_panel_menu])"
    if "bar \<notin> set X" "bar \<notin> set Y"
      "load_data fs (structure_path (ascii ''theory'')) (Some [(ascii ''topics'', [])]) = Inr data"
      "map_of data (ascii ''topics'') = Some items"
    using that sec
    by (simp add: guard waiting_add_item_def attempt_def split_one_sep getitem_def)
  have bad: "handle_admin_input ADMINS user_id now fs s user_message =
              (s, fs, [Reply (ErrorTryAgain ValueError) [cancel_label]])"
    if "count_list user_message bar \<noteq> 1"
  proof -
    have "length (split user_message bar) \<noteq> 2"
      using that by (simp add: length_split)
    then show ?thesis
      using sec by (simp add: guard waiting_add_item_def attempt_def unpack_two)
  qed
  show ?thesis using good bad by blast
qed

text \<open>
  The theorem at the payload \<open>"x| Z "\<close> on a missing file, where the item (1, "Z") is
  saved, and at the payloads \<open>"Z"\<close> and \<open>"x|y|Z"\<close>, which are refused.
\<close>

theorem theory_payload_keeps_second_part_witness:
  "handle_admin_input [42] 42 (ascii ''20240101_120000'') \<lparr>files = Map.empty, backups = []\<rparr>
     \<lparr>state = Some (ascii ''admin_panel''), admin_state = Some (ascii ''waiting_add_item''),
       admin_section = Some theory_label, admin_selected_item = None\<rparr> (ascii ''x| Z '')
   = (\<lparr>state = Some (ascii ''admin_panel''), admin_state = None, admin_section = None,
        admin_selected_item = None\<rparr>,
      \<lparr>files = [structure_path (ascii ''theory'') \<mapsto>
          Document [(ascii ''topics'', [\<lparr>item_id = ascii ''1'', item_name = ascii ''Z''\<rparr>])]],
        backups = []\<rparr>,
      [Reply (ItemAdded (ascii ''Z'') theory_label) get_admin_panel_menu])
   \<and> handle_admin_input [42] 42 (ascii ''20240101_120000'') \<lparr>files = Map.empty, backups = []\<rparr>
     \<lparr>state = Some (ascii ''admin_panel''), admin_state = Some (ascii ''waiting_add_item''),
       admin_section = Some theory_label, admin_selected_item = None\<rparr> (ascii ''Z'')
   = (\<lparr>state = Some (ascii ''admin_panel''), admin_state = Some (ascii ''waiting_add_item''),
        admin_section = Some theory_label, admin_selected_item = None\<rparr>,
      \<lparr>files = Map.empty, backups = []\<rparr>,
      [Reply (ErrorTryAgain ValueError) [cancel_label]])
   \<and> handle_admin_input [42] 42 (ascii ''20240101_120000'') \<lparr>files = Map.empty, backups = []\<rparr>
     \<lparr>state = Some (ascii ''admin_panel''), admin_state = Some (ascii ''waiting_add_item''),
       admin_section = Some theory_label, admin_selected_item = None\<rparr> (ascii ''x|y|Z'')
   = (\<lparr>state = Some (ascii ''admin_panel''), admin_state = Some (ascii ''waiting_add_item''),
        admin_section = Some theory_label, admin_selected_item = None\<rparr>,
      \<lparr>files = Map.empty, backups = []\<rparr>,
      [Reply (ErrorTryAgain ValueError) [cancel_label]])"
  using theory_payload_keeps_second_part
    [where ADMINS = "[42]" and user_id = 42 and now = "ascii ''20240101_120000''"
       and fs = "\<lparr>files = Map.empty, backups = []\<rparr>"
       and s = "\<lparr>state = Some (ascii ''admin_panel''),
                  admin_state = Some (ascii ''waiting_add_item''),
                  admin_section = Some theory_label, admin_selected_item = None\<rparr>"
       and X = "ascii ''x''" and Y = "ascii '' Z ''"
       and data = "[(ascii ''topics'', [])]" and items = "[]"
       and user_message = "ascii ''Z''"]
    theory_payload_keeps_second_part
    [where ADMINS = "[42]" and user_id = 42 and now = "ascii ''20240101_120000''"
       and fs = "\<lparr>files = Map.empty, backups = []\<rparr>"
       and s = "\<lparr>state = Some (ascii ''admin_panel''),
                  admin_state = Some (ascii ''waiting_add_item''),
                  admin_section = Some theory_label, admin_selected_item = None\<rparr>"
       and X = "ascii ''x''" and Y = "ascii '' Z ''"
       and data = "[(ascii ''topics'', [])]" and items = "[]"
       and user_message = "ascii ''x|y|Z''"]
  by (simp add: store_defs bar_def strip_def is_space_def str.simps)

section \<open>Backup rotation\<close>












text \<open>
  C9. The structure file of every section has the base name \<open>structure.json\<close>, so the
  name of a snapshot is made of this base name and the clock reading alone, and
  \<open>create_backup\<close> lists, counts and prunes the snapshots of all sections together.
  In the run below the section "tests" is saved eleven times, which leaves ten snapshots
  of its file; then the section "tasks" is saved twice. The second of these saves copies
  the file of "tasks", finds eleven entries and removes the oldest, a snapshot of "tests".
\<close>

theorem backups_of_all_sections_share_one_pool:
  "(\<forall>sec. basename (structure_path sec) = ascii ''structure.json'')
   \<and> (let fs0 = \<lparr>files = Map.empty, backups = []\<rparr>;
           fs1 = save_all fs0 (structure_path (ascii ''tests''))
            [(ascii ''20240101_120000'', [(ascii ''tests'', [])]),
             (ascii ''20240101_120001'', [(ascii ''tests'', [])]),
             (ascii ''20240101_120002'', [(ascii ''tests'', [])]),
             (ascii ''20240101_120003'', [(ascii ''tests'', [])]),
             (ascii ''20240101_120004'', [(ascii ''tests'', [])]),
             (ascii ''20240101_120005'', [(ascii ''tests'', [])]),
             (ascii ''20240101_120006'', [(ascii ''tests'', [])]),
             (ascii ''20240101_120007'', [(ascii ''tests'', [])]),
             (ascii ''20240101_120008'', [(ascii ''tests'', [])]),
             (ascii ''20240101_120009'', [(ascii ''tests'', [])]),
             (ascii ''20240101_120010'', [(ascii ''tests'', [])])];
           fs2 = save_data fs1 (ascii ''20240101_120011'') (structure_path (ascii ''tasks''))
                   [(ascii ''tasks'', [])];
           fs3 = save_data fs2 (ascii ''20240101_120012'') (structure_path (ascii ''tasks''))
                   [(ascii ''tasks'', [])]
       in backups fs2 =
        [(ascii ''structure.json_20240101_120001'', Document [(ascii ''tests'', [])]),
         (ascii ''structure.json_20240101_120002'', Document [(ascii ''tests'', [])]),
         (ascii ''structure.json_20240101_120003'', Document [(ascii ''tests'', [])]),
         (ascii ''structure.json_20240101_120004'', Document [(ascii ''tests'', [])]),
         (ascii ''structure.json_20240101_120005'', Document [(ascii ''tests'', [])]),
         (ascii ''structure.json_20240101_120006'', Document [(ascii ''tests'', [])]),
         (ascii ''structure.json_20240101_120007'', Document [(ascii ''tests'', [])]),
         (ascii ''structure.json_20240101_120008'', Document [(ascii ''tests'', [])]),
         (ascii ''structure.json_20240101_120009'', Document [(ascii ''tests'', [])]),
         (ascii ''structure.json_20240101_120010'', Document [(ascii ''tests'', [])])]
        \<and> backups fs3 =
        [(ascii ''structure.json_20240101_120002'', Document [(ascii ''tests'', [])]),
         (ascii ''structure.json_20240101_120003'', Document [(ascii ''tests'', [])]),
         (ascii ''structure.json_20240101_120004'', Document [(ascii ''tests'', [])]),
         (ascii ''structure.json_20240101_120005'', Document [(ascii ''tests'', [])]),
         (ascii ''structure.json_20240101_120006'', Document [(ascii ''tests'', [])]),
         (ascii ''structure.json_20240101_120007'', Document [(ascii ''tests'', [])]),
         (ascii ''structure.json_20240101_120008'', Document [(ascii ''tests'', [])]),
         (ascii ''structure.json_20240101_120009'', Document [(ascii ''tests'', [])]),
         (ascii ''structure.json_20240101_120010'', Document [(ascii ''tests'', [])]),
         (ascii ''structure.json_20240101_120012'', Document [(ascii ''tasks'', [])])])"
  by (simp add: basename_structure_path) (simp add: store_defs)

end
